theory Spec2Isabelle
  imports Main
begin

section \<open>The docker provisioner of tsuru: containers and images\<close>

text \<open>
  A shallow embedding of \<^verbatim>\<open>src/provision/docker/docker.go\<close>. Every operation of the file
  shells out through \<^verbatim>\<open>runCmd\<close>, reads the process-wide configuration and writes log lines.
  The collaborators that are not part of the file (the configuration package, the executor,
  the JSON decoder of Go's standard library) are the fields of an environment record; what
  the operations do to the outside world is an event trace that is passed through them.
\<close>

subsection \<open>Errors, events, JSON values\<close>

text \<open>
  A Go \<^verbatim>\<open>error\<close> value. The first three constructors are the values handed back by a
  collaborator (with the text of their \<^verbatim>\<open>Error()\<close> method), the last one is a value the
  file builds itself with \<^verbatim>\<open>errors.New(msg)\<close>.
\<close>

datatype error =
    ConfigError string
  | ExecuteError string
  | UnmarshalError string
  | ErrorsNew string

fun Error :: "error \<Rightarrow> string" where
  "Error (ConfigError m) = m"
| "Error (ExecuteError m) = m"
| "Error (UnmarshalError m) = m"
| "Error (ErrorsNew m) = m"

text \<open>
  What an operation does to the outside world, in the order it happens: a line given to
  the logger, or an external process run by the executor (command and arguments).
\<close>

datatype event =
    Log string
  | Exec string "string list"

text \<open>
  The values \<^verbatim>\<open>json.Unmarshal\<close> stores in an \<^verbatim>\<open>interface{}\<close>: \<^verbatim>\<open>nil\<close>, \<^verbatim>\<open>bool\<close>,
  \<^verbatim>\<open>float64\<close> (kept as the text of the literal), \<^verbatim>\<open>string\<close>, \<^verbatim>\<open>[]interface{}\<close> and
  \<^verbatim>\<open>map[string]interface{}\<close> (an association list, read with \<open>map_of\<close>).
\<close>

datatype json =
    JNull
  | JBool bool
  | JNumber string
  | JString string
  | JArray "json list"
  | JObject "(string \<times> json) list"

type_synonym gomap = "(string \<times> json) list"

text \<open>
  \<^verbatim>\<open>v, ok := m[k]\<close> on a \<^verbatim>\<open>map[string]interface{}\<close>: a missing key gives the zero value
  of \<^verbatim>\<open>interface{}\<close>, which is \<^verbatim>\<open>nil\<close>, and \<^verbatim>\<open>ok = false\<close>.
\<close>

definition index_ok :: "gomap \<Rightarrow> string \<Rightarrow> json \<times> bool" where
  "index_ok m k = (case map_of m k of None \<Rightarrow> (JNull, False) | Some v \<Rightarrow> (v, True))"

definition index :: "gomap \<Rightarrow> string \<Rightarrow> json" where
  "index m k = fst (index_ok m k)"

text \<open>
  The unchecked type assertions \<^verbatim>\<open>v.(map[string]interface{})\<close> and \<^verbatim>\<open>v.(string)\<close>: they
  panic (\<open>None\<close>) when the dynamic type of \<open>v\<close> is another one, \<^verbatim>\<open>nil\<close> included.
\<close>

fun assert_map :: "json \<Rightarrow> gomap option" where
  "assert_map (JObject m) = Some m"
| "assert_map _ = None"

fun assert_string :: "json \<Rightarrow> string option" where
  "assert_string (JString s) = Some s"
| "assert_string _ = None"

text \<open>A call either returns its results or panics.\<close>

datatype 'a outcome =
    Returns 'a
  | Panics

subsection \<open>The environment\<close>

text \<open>
  \<^item> \<open>GetString\<close>, \<open>GetList\<close>: \<^verbatim>\<open>config.GetString(key)\<close> and \<^verbatim>\<open>config.GetList(key)\<close>;
  \<^item> \<open>Execute\<close>: \<^verbatim>\<open>executor().Execute(cmd, args, nil, &out, &out)\<close>, giving the text
    written to the buffer and the error (\<open>None\<close> is \<^verbatim>\<open>nil\<close>);
  \<^item> \<open>Unmarshal\<close>: \<^verbatim>\<open>json.Unmarshal([]byte(text), &result)\<close> for a
    \<^verbatim>\<open>result\<close> of type \<^verbatim>\<open>map[string]interface{}\<close>.
\<close>

record env =
  GetString :: "string \<Rightarrow> error + string"
  GetList :: "string \<Rightarrow> error + string list"
  Execute :: "string \<Rightarrow> string list \<Rightarrow> string \<times> error option"
  Unmarshal :: "string \<Rightarrow> error + gomap"

record container =
  container_name :: string
  container_id :: string

record image =
  image_name :: string
  image_id :: string

subsection \<open>Formatting and string helpers of the Go library\<close>

abbreviation newline :: string where
  "newline \<equiv> [CHR 0x0A]"

text \<open>The verb \<^verbatim>\<open>%s\<close> applied to a \<^verbatim>\<open>[]string\<close>: the elements between brackets, separated by spaces.\<close>

fun join :: "string list \<Rightarrow> string \<Rightarrow> string" where
  "join [] sep = []"
| "join [a] sep = a"
| "join (a # b # bs) sep = a @ sep @ join (b # bs) sep"

definition fmt_strings :: "string list \<Rightarrow> string" where
  "fmt_strings args = ''['' @ join args '' '' @ '']''"

text \<open>
  \<^verbatim>\<open>strings.Replace(s, old, new, n)\<close>: the first \<open>n\<close> non-overlapping occurrences of \<open>old\<close>
  replaced by \<open>new\<close>, all of them when \<open>n < 0\<close>. An empty \<open>old\<close> matches before every
  character and at the end (characters are single bytes here).
\<close>

function strings_Replace :: "string \<Rightarrow> string \<Rightarrow> string \<Rightarrow> int \<Rightarrow> string" where
  "strings_Replace s old new n =
     (if n = 0 \<or> old = new then s
      else if old = [] then
        new @ (case s of [] \<Rightarrow> [] | c # cs \<Rightarrow> c # strings_Replace cs old new (n - 1))
      else if s = [] then []
      else if take (length old) s = old then
        new @ strings_Replace (drop (length old) s) old new (n - 1)
      else hd s # strings_Replace (tl s) old new n)"
  by pat_completeness auto
termination
  by (relation "measure (\<lambda>(s, old, new, n). length s)") auto

declare strings_Replace.simps [simp del]

subsection \<open>runCmd\<close>

text \<open>
  \<^verbatim>\<open>runCmd\<close> runs the command through the executor with one buffer for both output
  streams, then logs the command and its arguments, then returns the buffer's text and the
  executor's error.
\<close>

definition runCmd :: "env \<Rightarrow> string \<Rightarrow> string list \<Rightarrow> event list \<Rightarrow> (string \<times> error option) \<times> event list" where
  "runCmd e cmd args tr =
     (let (out, err) = Execute e cmd args;
          tr1 = tr @ [Exec cmd args];
          tr2 = tr1 @ [Log (''running the cmd: '' @ cmd @ '' with the args: '' @ fmt_strings args)]
      in ((out, err), tr2))"

subsection \<open>Container operations\<close>

text \<open>
  The methods have a pointer receiver, so each operation returns the container next to its
  results and the trace. \<^verbatim>\<open>create\<close> returns the output of \<^verbatim>\<open>docker run -d\<close> with every
  newline removed, together with the error of the run.
\<close>

definition create :: "env \<Rightarrow> container \<Rightarrow> event list \<Rightarrow> (string \<times> error option) \<times> container \<times> event list" where
  "create e c tr =
     (case GetString e ''docker:binary'' of
        Inl err \<Rightarrow> (('''', Some err), c, tr)
      | Inr docker \<Rightarrow>
     (case GetString e ''docker:image'' of
        Inl err \<Rightarrow> (('''', Some err), c, tr)
      | Inr template \<Rightarrow>
     (case GetString e ''docker:cmd:bin'' of
        Inl err \<Rightarrow> (('''', Some err), c, tr)
      | Inr cmd \<Rightarrow>
     (case GetList e ''docker:cmd:args'' of
        Inl err \<Rightarrow> (('''', Some err), c, tr)
      | Inr args \<Rightarrow>
          (let args1 = [''run'', ''-d'', template, cmd] @ args;
               ((out, err), tr1) = runCmd e docker args1 tr;
               ident = strings_Replace out newline '''' (- 1);
               tr2 = tr1 @ [Log (''docker id='' @ ident)]
           in ((ident, err), c, tr2))))))"

definition start :: "container \<Rightarrow> event list \<Rightarrow> error option \<times> container \<times> event list" where
  "start c tr = (None, c, tr)"

definition stop :: "env \<Rightarrow> container \<Rightarrow> event list \<Rightarrow> error option \<times> container \<times> event list" where
  "stop e c tr =
     (case GetString e ''docker:binary'' of
        Inl err \<Rightarrow> (Some err, c, tr)
      | Inr docker \<Rightarrow>
          (let tr1 = tr @ [Log (''trying to stop instance '' @ container_id c)];
               ((output, err), tr2) = runCmd e docker [''stop'', container_id c] tr1;
               tr3 = tr2 @ [Log (''docker stop='' @ output)]
           in (err, c, tr3)))"

definition remove :: "env \<Rightarrow> container \<Rightarrow> event list \<Rightarrow> error option \<times> container \<times> event list" where
  "remove e c tr =
     (case GetString e ''docker:binary'' of
        Inl err \<Rightarrow> (Some err, c, tr)
      | Inr docker \<Rightarrow>
          (let tr1 = tr @ [Log (''trying to remove container '' @ container_id c)];
               ((output, err), tr2) = runCmd e docker [''rm'', container_id c] tr1
           in (err, c, tr2)))"

text \<open>
  The messages of \<^verbatim>\<open>ip\<close>. The error values carry the format strings as they are; the
  log lines are the formatted ones (the first format has two verbs and one operand, so the
  second verb prints as \<^verbatim>\<open>%!s(MISSING)\<close>).
\<close>

definition msg_inspect :: string where
  "msg_inspect = ''error(%s) trying to inspect docker instance(%s) to get ipaddress''"

definition msg_parse :: string where
  "msg_parse = ''error(%s) parsing json from docker when trying to get ipaddress''"

definition msg_missing :: string where
  "msg_missing = ''Error when getting container information. NetworkSettings is missing.''"

definition msg_noip :: string where
  "msg_noip = ''error: Can't get ipaddress...''"

definition ip :: "env \<Rightarrow> container \<Rightarrow> event list \<Rightarrow> (string \<times> error option) outcome \<times> container \<times> event list" where
  "ip e c tr =
     (case GetString e ''docker:binary'' of
        Inl err \<Rightarrow> (Returns ('''', Some err), c, tr)
      | Inr docker \<Rightarrow>
          (let tr1 = tr @ [Log (''Getting ipaddress to instance '' @ container_id c)];
               ((instanceJson, err), tr2) = runCmd e docker [''inspect'', container_id c] tr1
           in case err of
                Some err1 \<Rightarrow>
                  (Returns ('''', Some (ErrorsNew msg_inspect)), c,
                   tr2 @ [Log (''error('' @ Error err1 @
                      '') trying to inspect docker instance(%!s(MISSING)) to get ipaddress'')])
              | None \<Rightarrow>
           (case Unmarshal e instanceJson of
              Inl err2 \<Rightarrow>
                (Returns ('''', Some (ErrorsNew msg_parse)), c,
                 tr2 @ [Log (''error('' @ Error err2 @
                    '') parsing json from docker when trying to get ipaddress'')])
            | Inr result \<Rightarrow>
           (let (ns, ok) = index_ok result ''NetworkSettings'' in
            if \<not> ok \<or> ns = JNull then
              (Returns ('''', Some (ErrorsNew msg_missing)), c, tr2 @ [Log msg_missing])
            else
           (case assert_map (index result ''NetworkSettings'') of
              None \<Rightarrow> (Panics, c, tr2)
            | Some networkSettings \<Rightarrow>
           (case assert_string (index networkSettings ''IpAddress'') of
              None \<Rightarrow> (Panics, c, tr2)
            | Some instanceIp \<Rightarrow>
                if instanceIp = '''' then
                  (Returns ('''', Some (ErrorsNew msg_noip)), c, tr2 @ [Log msg_noip])
                else
                  (Returns (instanceIp, None), c,
                   tr2 @ [Log (''Instance IpAddress: '' @ instanceIp)])))))))"

subsection \<open>Image operations\<close>

definition repositoryName :: "env \<Rightarrow> image \<Rightarrow> event list \<Rightarrow> string \<times> image \<times> event list" where
  "repositoryName e img tr =
     (case GetString e ''docker:repository-namespace'' of
        Inl err \<Rightarrow>
          ('''', img,
           tr @ [Log ''Tsuru is misconfigured. docker:repository-namespace config is missing.''])
      | Inr registryUser \<Rightarrow> (registryUser @ ''/'' @ image_name img, img, tr))"

definition commit :: "env \<Rightarrow> image \<Rightarrow> string \<Rightarrow> event list \<Rightarrow> error option \<times> image \<times> event list" where
  "commit e img cId tr =
     (case GetString e ''docker:binary'' of
        Inl err \<Rightarrow>
          (Some err, img, tr @ [Log ''Tsuru is misconfigured. docker:binary config is missing.''])
      | Inr docker \<Rightarrow>
          (let tr1 = tr @ [Log (''attempting to commit image from container '' @ cId)];
               (rName, img1, tr2) = repositoryName e img tr1;
               ((output, err), tr3) = runCmd e docker [''commit'', cId, rName] tr2
           in case err of
                Some err1 \<Rightarrow>
                  (Some err1, img1, tr3 @ [Log (''Could not commit docker image: '' @ Error err1)])
              | None \<Rightarrow> (None, img1, tr3)))"

subsection \<open>A decoder and a configuration for the examples\<close>

text \<open>
  The theorems below hold for every environment. Their instances on concrete inputs need
  one: a configuration read from a table of keys, an executor that answers every command
  with one fixed result, and a decoder for JSON texts. The decoder follows the grammar of
  RFC 8259 (strings without \<^verbatim>\<open>\u\<close> escapes); it stores a top-level object as the map,
  leaves the map empty on a top-level \<^verbatim>\<open>null\<close> and reports an error on any other text,
  as \<^verbatim>\<open>json.Unmarshal\<close> does for a \<^verbatim>\<open>map[string]interface{}\<close>.
\<close>

definition is_space :: "char \<Rightarrow> bool" where
  "is_space c = (c = CHR '' '' \<or> c = CHR 0x09 \<or> c = CHR 0x0A \<or> c = CHR 0x0D)"

definition skip_space :: "string \<Rightarrow> string" where
  "skip_space s = dropWhile is_space s"

definition is_digit :: "char \<Rightarrow> bool" where
  "is_digit c = (c \<in> set ''0123456789'')"

definition unescape :: "char \<Rightarrow> char option" where
  "unescape c =
     (if c = CHR 0x22 \<or> c = CHR 0x5C \<or> c = CHR ''/'' then Some c
      else if c = CHR ''b'' then Some (CHR 0x08)
      else if c = CHR ''f'' then Some (CHR 0x0C)
      else if c = CHR ''n'' then Some (CHR 0x0A)
      else if c = CHR ''r'' then Some (CHR 0x0D)
      else if c = CHR ''t'' then Some (CHR 0x09)
      else None)"

text \<open>The rest of a string after its opening quote: the characters and what follows the closing quote.\<close>

fun decode_string :: "string \<Rightarrow> (string \<times> string) option" where
  "decode_string [] = None"
| "decode_string [c] = (if c = CHR 0x22 then Some ([], []) else None)"
| "decode_string (c # d # ds) =
     (if c = CHR 0x22 then Some ([], d # ds)
      else if c = CHR 0x5C then
        (case unescape d of
           None \<Rightarrow> None
         | Some x \<Rightarrow> map_option (\<lambda>(s, r). (x # s, r)) (decode_string ds))
      else if (of_char c :: nat) < 32 then None
      else map_option (\<lambda>(s, r). (c # s, r)) (decode_string (d # ds)))"

definition digits1 :: "string \<Rightarrow> (string \<times> string) option" where
  "digits1 s =
     (let ds = takeWhile is_digit s
      in if ds = [] then None else Some (ds, dropWhile is_digit s))"

definition decode_int :: "string \<Rightarrow> (string \<times> string) option" where
  "decode_int s =
     (case s of
        [] \<Rightarrow> None
      | c # cs \<Rightarrow> if c = CHR ''0'' then Some ([c], cs) else digits1 s)"

definition decode_frac :: "string \<Rightarrow> (string \<times> string) option" where
  "decode_frac s =
     (case s of
        [] \<Rightarrow> Some ([], s)
      | c # cs \<Rightarrow>
          if c = CHR ''.'' then map_option (\<lambda>(ds, r). (c # ds, r)) (digits1 cs)
          else Some ([], s))"

definition decode_exp :: "string \<Rightarrow> (string \<times> string) option" where
  "decode_exp s =
     (case s of
        [] \<Rightarrow> Some ([], s)
      | c # cs \<Rightarrow>
          if c = CHR ''e'' \<or> c = CHR ''E'' then
            (case cs of
               [] \<Rightarrow> None
             | d # ds \<Rightarrow>
                 if d = CHR ''+'' \<or> d = CHR ''-''
                 then map_option (\<lambda>(x, r). (c # d # x, r)) (digits1 ds)
                 else map_option (\<lambda>(x, r). (c # x, r)) (digits1 cs))
          else Some ([], s))"

definition decode_number :: "string \<Rightarrow> (string \<times> string) option" where
  "decode_number s =
     (let (sign, s0) =
            (case s of
               [] \<Rightarrow> ([], s)
             | c # cs \<Rightarrow> if c = CHR ''-'' then ([c], cs) else ([], s))
      in case decode_int s0 of
           None \<Rightarrow> None
         | Some (i, s1) \<Rightarrow>
        (case decode_frac s1 of
           None \<Rightarrow> None
         | Some (f, s2) \<Rightarrow>
        (case decode_exp s2 of
           None \<Rightarrow> None
         | Some (x, s3) \<Rightarrow> Some (sign @ i @ f @ x, s3))))"

definition literal :: "string \<Rightarrow> string \<Rightarrow> string option" where
  "literal w s = (if take (length w) s = w then Some (drop (length w) s) else None)"

text \<open>
  Values, the members of an object and the elements of an array. The first argument bounds
  the number of nested calls; \<open>json_Unmarshal\<close> starts from the length of the text. A member
  read later stands before the earlier ones, so \<open>map_of\<close> finds the last value written
  for a key, as the Go map holds it.
\<close>

fun decode_value :: "nat \<Rightarrow> string \<Rightarrow> (json \<times> string) option"
  and decode_members :: "nat \<Rightarrow> string \<Rightarrow> gomap \<Rightarrow> (gomap \<times> string) option"
  and decode_elements :: "nat \<Rightarrow> string \<Rightarrow> json list \<Rightarrow> (json list \<times> string) option" where
  "decode_value 0 s = None"
| "decode_value (Suc n) s =
     (case skip_space s of
        [] \<Rightarrow> None
      | c # cs \<Rightarrow>
          if c = CHR ''{'' then
            (case skip_space cs of
               [] \<Rightarrow> None
             | d # ds \<Rightarrow>
                 if d = CHR ''}'' then Some (JObject [], ds)
                 else map_option (\<lambda>(m, r). (JObject m, r)) (decode_members n cs []))
          else if c = CHR ''['' then
            (case skip_space cs of
               [] \<Rightarrow> None
             | d # ds \<Rightarrow>
                 if d = CHR '']'' then Some (JArray [], ds)
                 else map_option (\<lambda>(vs, r). (JArray vs, r)) (decode_elements n cs []))
          else if c = CHR 0x22 then map_option (\<lambda>(x, r). (JString x, r)) (decode_string cs)
          else if c = CHR ''n'' then map_option (Pair JNull) (literal ''null'' (c # cs))
          else if c = CHR ''t'' then map_option (Pair (JBool True)) (literal ''true'' (c # cs))
          else if c = CHR ''f'' then map_option (Pair (JBool False)) (literal ''false'' (c # cs))
          else map_option (\<lambda>(x, r). (JNumber x, r)) (decode_number (c # cs)))"
| "decode_members 0 s acc = None"
| "decode_members (Suc n) s acc =
     (case skip_space s of
        [] \<Rightarrow> None
      | c # cs \<Rightarrow>
          if c \<noteq> CHR 0x22 then None
          else
            (case decode_string cs of
               None \<Rightarrow> None
             | Some (k, r1) \<Rightarrow>
            (case skip_space r1 of
               [] \<Rightarrow> None
             | d # r2 \<Rightarrow>
                 if d \<noteq> CHR '':'' then None
                 else
                   (case decode_value n r2 of
                      None \<Rightarrow> None
                    | Some (v, r3) \<Rightarrow>
                   (case skip_space r3 of
                      [] \<Rightarrow> None
                    | x # r4 \<Rightarrow>
                        if x = CHR '','' then decode_members n r4 ((k, v) # acc)
                        else if x = CHR ''}'' then Some ((k, v) # acc, r4)
                        else None)))))"
| "decode_elements 0 s acc = None"
| "decode_elements (Suc n) s acc =
     (case decode_value n s of
        None \<Rightarrow> None
      | Some (v, r1) \<Rightarrow>
     (case skip_space r1 of
        [] \<Rightarrow> None
      | x # r2 \<Rightarrow>
          if x = CHR '','' then decode_elements n r2 (acc @ [v])
          else if x = CHR '']'' then Some (acc @ [v], r2)
          else None))"

definition json_Unmarshal :: "string \<Rightarrow> error + gomap" where
  "json_Unmarshal text =
     (case decode_value (Suc (length text)) text of
        None \<Rightarrow> Inl (UnmarshalError ''invalid character'')
      | Some (v, rest) \<Rightarrow>
          if skip_space rest \<noteq> [] then
            Inl (UnmarshalError ''invalid character after top-level value'')
          else
            (case v of
               JObject m \<Rightarrow> Inr m
             | JNull \<Rightarrow> Inr []
             | _ \<Rightarrow> Inl (UnmarshalError ''json: cannot unmarshal into Go value of type map[string]interface {}'')))"

datatype cfg =
    CString string
  | CList "string list"

definition conf_GetString :: "(string \<times> cfg) list \<Rightarrow> string \<Rightarrow> error + string" where
  "conf_GetString conf key =
     (case map_of conf key of
        Some (CString s) \<Rightarrow> Inr s
      | Some (CList l) \<Rightarrow> Inl (ConfigError (''key '' @ key @ '' is not a string''))
      | None \<Rightarrow> Inl (ConfigError (''key '' @ key @ '' not found'')))"

definition conf_GetList :: "(string \<times> cfg) list \<Rightarrow> string \<Rightarrow> error + string list" where
  "conf_GetList conf key =
     (case map_of conf key of
        Some (CList l) \<Rightarrow> Inr l
      | Some (CString s) \<Rightarrow> Inl (ConfigError (''key '' @ key @ '' is not a list''))
      | None \<Rightarrow> Inl (ConfigError (''key '' @ key @ '' not found'')))"

text \<open>An environment over a configuration table, whose executor answers \<open>r\<close> to every command.\<close>

definition fake_env :: "(string \<times> cfg) list \<Rightarrow> string \<times> error option \<Rightarrow> env" where
  "fake_env conf r =
     \<lparr>GetString = conf_GetString conf, GetList = conf_GetList conf,
      Execute = (\<lambda>cmd args. r), Unmarshal = json_Unmarshal\<rparr>"

text \<open>
  The \<^verbatim>\<open>docker:\<close> section of the sample configuration file of the repository. It has the
  repository namespace and none of the keys \<^verbatim>\<open>docker:binary\<close>, \<^verbatim>\<open>docker:image\<close>,
  \<^verbatim>\<open>docker:cmd:bin\<close>, \<^verbatim>\<open>docker:cmd:args\<close>.
\<close>

definition sample_conf :: "(string \<times> cfg) list" where
  "sample_conf =
     [(''docker:servers'', CList [''http://EXTIP:2375'']),
      (''docker:collection'', CString ''docker''),
      (''docker:repository-namespace'', CString ''tsuru''),
      (''docker:router'', CString ''hipache''),
      (''docker:deploy-cmd'', CString ''/var/lib/tsuru/deploy''),
      (''docker:run-cmd:bin'', CString ''/var/lib/tsuru/start''),
      (''docker:run-cmd:port'', CString ''8888''),
      (''docker:ssh:add-key-cmd'', CString ''/var/lib/tsuru/add-key''),
      (''docker:ssh:public-key'', CString ''/home/ubuntu/.ssh/id_dsa.pub''),
      (''docker:ssh:user'', CString ''ubuntu'')]"

text \<open>A configuration with the four keys \<^verbatim>\<open>create\<close> reads, and no repository namespace.\<close>

definition cli_conf :: "(string \<times> cfg) list" where
  "cli_conf =
     [(''docker:binary'', CString ''/usr/bin/docker''),
      (''docker:image'', CString ''base''),
      (''docker:cmd:bin'', CString ''/var/lib/tsuru/start''),
      (''docker:cmd:args'', CList [''-p'', ''8888''])]"

text \<open>The two together: every key the file reads.\<close>

definition full_conf :: "(string \<times> cfg) list" where
  "full_conf = cli_conf @ sample_conf"

definition app :: container where
  "app = \<lparr>container_name = ''app'', container_id = []\<rparr>"

definition app_created :: container where
  "app_created = \<lparr>container_name = ''app'', container_id = ''abc123''\<rparr>"

definition base :: image where
  "base = \<lparr>image_name = ''base'', image_id = []\<rparr>"

text \<open>The inspect outputs of the examples.\<close>

definition inspect_with_ip :: string where
  "inspect_with_ip = ''{\"NetworkSettings\":{\"IpAddress\":\"10.0.0.5\"}}''"

definition inspect_null :: string where
  "inspect_null = ''{\"NetworkSettings\":null}''"

definition inspect_empty_ip :: string where
  "inspect_empty_ip = ''{\"NetworkSettings\":{\"IpAddress\":\"\"}}''"

definition inspect_settings_number :: string where
  "inspect_settings_number = ''{\"NetworkSettings\":5}''"

definition inspect_no_ip :: string where
  "inspect_no_ip = ''{\"NetworkSettings\":{}}''"

definition inspect_ip_number :: string where
  "inspect_ip_number = ''{\"NetworkSettings\":{\"IpAddress\":7}}''"

subsection \<open>Notions the properties are stated with\<close>

text \<open>
  The specification's reading of what \<^verbatim>\<open>create\<close> does to the output: one newline at the
  end is dropped, and nothing else changes.
\<close>

definition strip_one_trailing_newline :: "string \<Rightarrow> string" where
  "strip_one_trailing_newline s = (if s \<noteq> [] \<and> last s = CHR 0x0A then butlast s else s)"

text \<open>The external invocations of a trace, in order.\<close>

fun is_exec :: "event \<Rightarrow> bool" where
  "is_exec (Exec cmd args) = True"
| "is_exec (Log l) = False"

definition invocations :: "event list \<Rightarrow> event list" where
  "invocations tr = filter is_exec tr"

text \<open>\<open>precedes a b tr\<close>: the event \<open>a\<close> occurs in the trace and \<open>b\<close> occurs after its first occurrence.\<close>

definition precedes :: "event \<Rightarrow> event \<Rightarrow> event list \<Rightarrow> bool" where
  "precedes a b tr = (b \<in> set (drop 1 (dropWhile (\<lambda>x. x \<noteq> a) tr)))"

text \<open>
  \<open>logged_after_run tr\<close>: every execution in the trace is immediately followed by the log
  line of \<^verbatim>\<open>runCmd\<close> for its command and arguments.
\<close>

fun logged_after_run :: "event list \<Rightarrow> bool" where
  "logged_after_run [] = True"
| "logged_after_run (Log l # tr) = logged_after_run tr"
| "logged_after_run [Exec cmd args] = False"
| "logged_after_run (Exec cmd args # x # tr) =
     (x = Log (''running the cmd: '' @ cmd @ '' with the args: '' @ fmt_strings args) \<and>
      logged_after_run tr)"

fun is_object :: "json \<Rightarrow> bool" where
  "is_object (JObject m) = True"
| "is_object _ = False"

fun is_string :: "json \<Rightarrow> bool" where
  "is_string (JString s) = True"
| "is_string _ = False"

section \<open>Properties\<close>

subsection \<open>Auxiliary facts\<close>

lemma strings_Replace_remove_char:
  "n < 0 \<Longrightarrow> strings_Replace s [c] [] n = filter (\<lambda>x. x \<noteq> c) s"
proof (induction s arbitrary: n)
  case Nil
  then show ?case by (simp add: strings_Replace.simps)
next
  case (Cons a s)
  have step: "strings_Replace (a # s) [c] [] n =
      (if a = c then strings_Replace s [c] [] (n - 1) else a # strings_Replace s [c] [] n)"
    using Cons.prems by (subst strings_Replace.simps) simp
  have "n - 1 < 0" using Cons.prems by simp
  then have "strings_Replace s [c] [] (n - 1) = filter (\<lambda>x. x \<noteq> c) s"
    by (rule Cons.IH)
  moreover have "strings_Replace s [c] [] n = filter (\<lambda>x. x \<noteq> c) s"
    using Cons.prems by (rule Cons.IH)
  ultimately show ?case using step by simp
qed

lemmas fake_simps =
  fake_env_def conf_GetString_def conf_GetList_def cli_conf_def sample_conf_def full_conf_def
  app_def app_created_def base_def

lemma create_configured:
  assumes "GetString e ''docker:binary'' = Inr docker"
    and "GetString e ''docker:image'' = Inr template"
    and "GetString e ''docker:cmd:bin'' = Inr cmd"
    and "GetList e ''docker:cmd:args'' = Inr args"
    and "Execute e docker ([''run'', ''-d'', template, cmd] @ args) = (out, err)"
  shows "create e c tr =
           ((filter (\<lambda>x. x \<noteq> CHR 0x0A) out, err), c,
            tr @ [Exec docker ([''run'', ''-d'', template, cmd] @ args),
                  Log (''running the cmd: '' @ docker @ '' with the args: '' @
                       fmt_strings ([''run'', ''-d'', template, cmd] @ args)),
                  Log (''docker id='' @ filter (\<lambda>x. x \<noteq> CHR 0x0A) out)])"
  using assms by (simp add: create_def runCmd_def Let_def strings_Replace_remove_char)

subsection \<open>The identifier returned by create\<close>

text \<open>
  C1 (as amended). Once the four configuration keys are read, \<^verbatim>\<open>create\<close> returns the
  captured output of the run with every newline character removed, wherever it stands
  (at the end, inside, repeated), and with every other character kept in its place. On
  the output \<^verbatim>\<open>"abc123\n"\<close> the identifier is \<^verbatim>\<open>"abc123"\<close>.
\<close>

theorem create_removes_every_newline:
  assumes "GetString e ''docker:binary'' = Inr docker"
    and "GetString e ''docker:image'' = Inr template"
    and "GetString e ''docker:cmd:bin'' = Inr cmd"
    and "GetList e ''docker:cmd:args'' = Inr args"
    and "Execute e docker ([''run'', ''-d'', template, cmd] @ args) = (out, err)"
  shows "fst (fst (create e c tr)) = filter (\<lambda>x. x \<noteq> CHR 0x0A) out"
  using create_configured [OF assms] by simp

theorem create_removes_every_newline_witness:
  "fst (fst (create (fake_env cli_conf (''abc123'' @ newline, None)) app [])) = ''abc123''"
  using create_removes_every_newline [of "fake_env cli_conf (''abc123'' @ newline, None)"
      "''/usr/bin/docker''" "''base''" "''/var/lib/tsuru/start''" "[''-p'', ''8888'']"
      "''abc123'' @ newline" None app "[]"]
  by (simp add: fake_simps)

text \<open>
  C1 as the specification states it fails: on the output \<^verbatim>\<open>"abc\n123\n"\<close> the newline
  inside is removed too, where stripping one trailing newline would keep it.
\<close>

theorem create_one_trailing_newline_counterexample:
  "fst (fst (create (fake_env cli_conf (''abc'' @ newline @ ''123'' @ newline, None)) app [])) =
     ''abc123'' \<and>
   strip_one_trailing_newline (''abc'' @ newline @ ''123'' @ newline) = ''abc'' @ newline @ ''123''"
  by (simp add: create_def runCmd_def Let_def fake_simps strip_one_trailing_newline_def
      strings_Replace_remove_char)

subsection \<open>Auxiliary facts about ip\<close>

lemma ip_unconfigured:
  "GetString e ''docker:binary'' = Inl err \<Longrightarrow> ip e c tr = (Returns ([], Some err), c, tr)"
  by (simp add: ip_def)

lemma ip_inspect_failed:
  assumes "GetString e ''docker:binary'' = Inr docker"
    and "Execute e docker [''inspect'', container_id c] = (out, Some err)"
  shows "fst (ip e c tr) = Returns ([], Some (ErrorsNew msg_inspect))"
  using assms by (simp add: ip_def runCmd_def Let_def)

lemma ip_not_json:
  assumes "GetString e ''docker:binary'' = Inr docker"
    and "Execute e docker [''inspect'', container_id c] = (out, None)"
    and "Unmarshal e out = Inl err"
  shows "fst (ip e c tr) = Returns ([], Some (ErrorsNew msg_parse))"
  using assms by (simp add: ip_def runCmd_def Let_def)

text \<open>What \<^verbatim>\<open>ip\<close> returns once the output is decoded depends on the decoded map only.\<close>

lemma ip_decoded:
  assumes "GetString e ''docker:binary'' = Inr docker"
    and "Execute e docker [''inspect'', container_id c] = (out, None)"
    and "Unmarshal e out = Inr result"
  shows "fst (ip e c tr) =
     (case map_of result ''NetworkSettings'' of
        None \<Rightarrow> Returns ([], Some (ErrorsNew msg_missing))
      | Some JNull \<Rightarrow> Returns ([], Some (ErrorsNew msg_missing))
      | Some (JObject ns) \<Rightarrow>
          (case map_of ns ''IpAddress'' of
             Some (JString a) \<Rightarrow>
               if a = [] then Returns ([], Some (ErrorsNew msg_noip)) else Returns (a, None)
           | _ \<Rightarrow> Panics)
      | Some _ \<Rightarrow> Panics)"
  using assms
  by (simp add: ip_def runCmd_def Let_def index_ok_def index_def
      split: option.split json.split)

lemma ip_keeps_container: "fst (snd (ip e c tr)) = c"
  by (simp add: ip_def runCmd_def Let_def split: sum.split option.split prod.split)

lemma ip_error_empty:
  "fst (ip e c tr) = Returns (s, Some err) \<Longrightarrow> s = []"
  by (simp add: ip_def runCmd_def Let_def split: sum.splits option.splits prod.splits if_splits)

lemma messages_distinct: "distinct [msg_inspect, msg_parse, msg_missing, msg_noip]"
  by (simp add: msg_inspect_def msg_parse_def msg_missing_def msg_noip_def)

lemma decode_inspect_with_ip:
  "json_Unmarshal inspect_with_ip =
     Inr [(''NetworkSettings'', JObject [(''IpAddress'', JString ''10.0.0.5'')])]"
  unfolding inspect_with_ip_def by code_simp

lemma decode_inspect_null: "json_Unmarshal inspect_null = Inr [(''NetworkSettings'', JNull)]"
  unfolding inspect_null_def by code_simp

lemma decode_inspect_empty_ip:
  "json_Unmarshal inspect_empty_ip =
     Inr [(''NetworkSettings'', JObject [(''IpAddress'', JString [])])]"
  unfolding inspect_empty_ip_def by code_simp

lemma decode_not_json: "json_Unmarshal ''not-json'' = Inl (UnmarshalError ''invalid character'')"
  by code_simp

lemma decode_inspect_settings_number:
  "json_Unmarshal inspect_settings_number = Inr [(''NetworkSettings'', JNumber ''5'')]"
  unfolding inspect_settings_number_def by code_simp

lemma decode_inspect_no_ip:
  "json_Unmarshal inspect_no_ip = Inr [(''NetworkSettings'', JObject [])]"
  unfolding inspect_no_ip_def by code_simp

lemma decode_inspect_ip_number:
  "json_Unmarshal inspect_ip_number =
     Inr [(''NetworkSettings'', JObject [(''IpAddress'', JNumber ''7'')])]"
  unfolding inspect_ip_number_def by code_simp

lemmas decode_simps =
  decode_inspect_with_ip decode_inspect_null decode_inspect_empty_ip decode_not_json
  decode_inspect_settings_number decode_inspect_no_ip decode_inspect_ip_number

subsection \<open>ip on the inspect outputs of the specification\<close>

text \<open>
  C2. With the binary configured and an inspect run that succeeds with output \<open>out\<close>:
  on \<^verbatim>\<open>{"NetworkSettings":{"IpAddress":"10.0.0.5"}}\<close>, which the decoder turns into a map
  with that address, \<^verbatim>\<open>ip\<close> returns \<^verbatim>\<open>"10.0.0.5"\<close> and no error; on
  \<^verbatim>\<open>{"NetworkSettings":null}\<close> it returns the error "NetworkSettings is missing"; on
  \<^verbatim>\<open>{"NetworkSettings":{"IpAddress":""}}\<close> it returns the error "Can't get ipaddress";
  on \<^verbatim>\<open>not-json\<close>, which the decoder refuses, it returns the parse error, which is not
  the error it returns when the inspect run fails, and not an error of the executor.
\<close>

theorem ip_on_specified_outputs:
  assumes "GetString e ''docker:binary'' = Inr docker"
    and "Execute e docker [''inspect'', container_id c] = (out, None)"
  shows "(out = inspect_with_ip \<and>
          Unmarshal e out =
            Inr [(''NetworkSettings'', JObject [(''IpAddress'', JString ''10.0.0.5'')])] \<longrightarrow>
            fst (ip e c tr) = Returns (''10.0.0.5'', None)) \<and>
         (out = inspect_null \<and> Unmarshal e out = Inr [(''NetworkSettings'', JNull)] \<longrightarrow>
            fst (ip e c tr) = Returns ([], Some (ErrorsNew msg_missing))) \<and>
         (out = inspect_empty_ip \<and>
          Unmarshal e out = Inr [(''NetworkSettings'', JObject [(''IpAddress'', JString [])])] \<longrightarrow>
            fst (ip e c tr) = Returns ([], Some (ErrorsNew msg_noip))) \<and>
         (out = ''not-json'' \<and> Unmarshal e out = Inl uerr \<longrightarrow>
            fst (ip e c tr) = Returns ([], Some (ErrorsNew msg_parse)) \<and>
            ErrorsNew msg_parse \<noteq> ErrorsNew msg_inspect \<and>
            ErrorsNew msg_parse \<noteq> ExecuteError xerr)"
proof (intro conjI impI)
  assume "out = inspect_with_ip \<and>
    Unmarshal e out = Inr [(''NetworkSettings'', JObject [(''IpAddress'', JString ''10.0.0.5'')])]"
  then have "Unmarshal e out =
      Inr [(''NetworkSettings'', JObject [(''IpAddress'', JString ''10.0.0.5'')])]" ..
  from ip_decoded [OF assms this] show "fst (ip e c tr) = Returns (''10.0.0.5'', None)"
    by simp
next
  assume "out = inspect_null \<and> Unmarshal e out = Inr [(''NetworkSettings'', JNull)]"
  then have "Unmarshal e out = Inr [(''NetworkSettings'', JNull)]" ..
  from ip_decoded [OF assms this]
  show "fst (ip e c tr) = Returns ([], Some (ErrorsNew msg_missing))"
    by simp
next
  assume "out = inspect_empty_ip \<and>
    Unmarshal e out = Inr [(''NetworkSettings'', JObject [(''IpAddress'', JString [])])]"
  then have "Unmarshal e out = Inr [(''NetworkSettings'', JObject [(''IpAddress'', JString [])])]" ..
  from ip_decoded [OF assms this]
  show "fst (ip e c tr) = Returns ([], Some (ErrorsNew msg_noip))"
    by simp
next
  assume "out = ''not-json'' \<and> Unmarshal e out = Inl uerr"
  then have "Unmarshal e out = Inl uerr" ..
  from ip_not_json [OF assms this]
  show "fst (ip e c tr) = Returns ([], Some (ErrorsNew msg_parse))" .
next
  show "ErrorsNew msg_parse \<noteq> ErrorsNew msg_inspect"
    using messages_distinct by auto
next
  show "ErrorsNew msg_parse \<noteq> ExecuteError xerr" by simp
qed

theorem ip_on_specified_outputs_witness:
  "fst (ip (fake_env cli_conf (inspect_with_ip, None)) app_created []) = Returns (''10.0.0.5'', None) \<and>
   fst (ip (fake_env cli_conf (inspect_null, None)) app_created []) =
     Returns ([], Some (ErrorsNew msg_missing)) \<and>
   fst (ip (fake_env cli_conf (inspect_empty_ip, None)) app_created []) =
     Returns ([], Some (ErrorsNew msg_noip)) \<and>
   fst (ip (fake_env cli_conf (''not-json'', None)) app_created []) =
     Returns ([], Some (ErrorsNew msg_parse))"
  using
    ip_on_specified_outputs [where e = "fake_env cli_conf (inspect_with_ip, None)"
      and docker = "''/usr/bin/docker''" and c = app_created and out = inspect_with_ip and tr = "[]"]
    ip_on_specified_outputs [where e = "fake_env cli_conf (inspect_null, None)"
      and docker = "''/usr/bin/docker''" and c = app_created and out = inspect_null and tr = "[]"]
    ip_on_specified_outputs [where e = "fake_env cli_conf (inspect_empty_ip, None)"
      and docker = "''/usr/bin/docker''" and c = app_created and out = inspect_empty_ip and tr = "[]"]
    ip_on_specified_outputs [where e = "fake_env cli_conf (''not-json'', None)"
      and docker = "''/usr/bin/docker''" and c = app_created and out = "''not-json''"
      and uerr = "UnmarshalError ''invalid character''" and tr = "[]"]
  by (simp add: fake_simps decode_simps)

lemma decode_empty_object: "json_Unmarshal ''{}'' = Inr []"
  by code_simp

subsection \<open>The failure modes of ip\<close>

text \<open>
  C4 (as amended). \<^verbatim>\<open>ip\<close> returns the empty string next to every error it returns. When
  the lookup of the binary path fails, the error it returns is the error of the lookup,
  passed through as it is. The four other failures each give an error of their own, built
  with \<^verbatim>\<open>errors.New\<close> from a fixed message whatever the underlying error was: the inspect
  run fails; the output is not JSON; the key \<^verbatim>\<open>NetworkSettings\<close> is absent or null; the
  address is the empty string. The four messages differ from one another.
\<close>

theorem ip_failure_modes:
  "(GetString e ''docker:binary'' = Inl cerr \<longrightarrow> fst (ip e c tr) = Returns ([], Some cerr)) \<and>
   (GetString e ''docker:binary'' = Inr docker \<and>
    Execute e docker [''inspect'', container_id c] = (out, Some xerr) \<longrightarrow>
      fst (ip e c tr) = Returns ([], Some (ErrorsNew msg_inspect))) \<and>
   (GetString e ''docker:binary'' = Inr docker \<and>
    Execute e docker [''inspect'', container_id c] = (out, None) \<and>
    Unmarshal e out = Inl uerr \<longrightarrow>
      fst (ip e c tr) = Returns ([], Some (ErrorsNew msg_parse))) \<and>
   (GetString e ''docker:binary'' = Inr docker \<and>
    Execute e docker [''inspect'', container_id c] = (out, None) \<and>
    Unmarshal e out = Inr result \<and>
    (map_of result ''NetworkSettings'' = None \<or> map_of result ''NetworkSettings'' = Some JNull) \<longrightarrow>
      fst (ip e c tr) = Returns ([], Some (ErrorsNew msg_missing))) \<and>
   (GetString e ''docker:binary'' = Inr docker \<and>
    Execute e docker [''inspect'', container_id c] = (out, None) \<and>
    Unmarshal e out = Inr result \<and>
    map_of result ''NetworkSettings'' = Some (JObject ns) \<and>
    map_of ns ''IpAddress'' = Some (JString []) \<longrightarrow>
      fst (ip e c tr) = Returns ([], Some (ErrorsNew msg_noip))) \<and>
   distinct [ErrorsNew msg_inspect, ErrorsNew msg_parse, ErrorsNew msg_missing, ErrorsNew msg_noip] \<and>
   (fst (ip e c tr) = Returns (s, Some err) \<longrightarrow> s = [])"
proof (intro conjI impI)
  assume "GetString e ''docker:binary'' = Inl cerr"
  then show "fst (ip e c tr) = Returns ([], Some cerr)"
    by (simp add: ip_unconfigured)
next
  assume "GetString e ''docker:binary'' = Inr docker \<and>
    Execute e docker [''inspect'', container_id c] = (out, Some xerr)"
  then show "fst (ip e c tr) = Returns ([], Some (ErrorsNew msg_inspect))"
    using ip_inspect_failed by blast
next
  assume "GetString e ''docker:binary'' = Inr docker \<and>
    Execute e docker [''inspect'', container_id c] = (out, None) \<and> Unmarshal e out = Inl uerr"
  then show "fst (ip e c tr) = Returns ([], Some (ErrorsNew msg_parse))"
    using ip_not_json by blast
next
  assume h: "GetString e ''docker:binary'' = Inr docker \<and>
    Execute e docker [''inspect'', container_id c] = (out, None) \<and>
    Unmarshal e out = Inr result \<and>
    (map_of result ''NetworkSettings'' = None \<or> map_of result ''NetworkSettings'' = Some JNull)"
  then have "fst (ip e c tr) =
     (case map_of result ''NetworkSettings'' of
        None \<Rightarrow> Returns ([], Some (ErrorsNew msg_missing))
      | Some JNull \<Rightarrow> Returns ([], Some (ErrorsNew msg_missing))
      | Some (JObject ns) \<Rightarrow>
          (case map_of ns ''IpAddress'' of
             Some (JString a) \<Rightarrow>
               if a = [] then Returns ([], Some (ErrorsNew msg_noip)) else Returns (a, None)
           | _ \<Rightarrow> Panics)
      | Some _ \<Rightarrow> Panics)"
    using ip_decoded by blast
  with h show "fst (ip e c tr) = Returns ([], Some (ErrorsNew msg_missing))"
    by auto
next
  assume h: "GetString e ''docker:binary'' = Inr docker \<and>
    Execute e docker [''inspect'', container_id c] = (out, None) \<and>
    Unmarshal e out = Inr result \<and>
    map_of result ''NetworkSettings'' = Some (JObject ns) \<and>
    map_of ns ''IpAddress'' = Some (JString [])"
  then have "fst (ip e c tr) =
     (case map_of result ''NetworkSettings'' of
        None \<Rightarrow> Returns ([], Some (ErrorsNew msg_missing))
      | Some JNull \<Rightarrow> Returns ([], Some (ErrorsNew msg_missing))
      | Some (JObject ns) \<Rightarrow>
          (case map_of ns ''IpAddress'' of
             Some (JString a) \<Rightarrow>
               if a = [] then Returns ([], Some (ErrorsNew msg_noip)) else Returns (a, None)
           | _ \<Rightarrow> Panics)
      | Some _ \<Rightarrow> Panics)"
    using ip_decoded by blast
  with h show "fst (ip e c tr) = Returns ([], Some (ErrorsNew msg_noip))"
    by simp
next
  show "distinct [ErrorsNew msg_inspect, ErrorsNew msg_parse, ErrorsNew msg_missing, ErrorsNew msg_noip]"
    using messages_distinct by simp
next
  assume "fst (ip e c tr) = Returns (s, Some err)"
  then show "s = []" by (rule ip_error_empty)
qed

theorem ip_failure_modes_witness:
  "fst (ip (fake_env sample_conf (inspect_with_ip, None)) app_created []) =
     Returns ([], Some (ConfigError ''key docker:binary not found'')) \<and>
   fst (ip (fake_env cli_conf (''No such container'', Some (ExecuteError ''exit status 1'')))
     app_created []) = Returns ([], Some (ErrorsNew msg_inspect)) \<and>
   fst (ip (fake_env cli_conf (''not-json'', None)) app_created []) =
     Returns ([], Some (ErrorsNew msg_parse)) \<and>
   fst (ip (fake_env cli_conf (inspect_null, None)) app_created []) =
     Returns ([], Some (ErrorsNew msg_missing)) \<and>
   fst (ip (fake_env cli_conf (''{}'', None)) app_created []) =
     Returns ([], Some (ErrorsNew msg_missing)) \<and>
   fst (ip (fake_env cli_conf (inspect_empty_ip, None)) app_created []) =
     Returns ([], Some (ErrorsNew msg_noip))"
  using
    ip_failure_modes [where e = "fake_env sample_conf (inspect_with_ip, None)"
      and cerr = "ConfigError ''key docker:binary not found''" and c = app_created and tr = "[]"]
    ip_failure_modes [where e = "fake_env cli_conf (''No such container'', Some (ExecuteError ''exit status 1''))"
      and docker = "''/usr/bin/docker''" and out = "''No such container''"
      and xerr = "ExecuteError ''exit status 1''" and c = app_created and tr = "[]"]
    ip_failure_modes [where e = "fake_env cli_conf (''not-json'', None)"
      and docker = "''/usr/bin/docker''" and out = "''not-json''"
      and uerr = "UnmarshalError ''invalid character''" and c = app_created and tr = "[]"]
    ip_failure_modes [where e = "fake_env cli_conf (inspect_null, None)"
      and docker = "''/usr/bin/docker''" and out = inspect_null
      and result = "[(''NetworkSettings'', JNull)]" and c = app_created and tr = "[]"]
    ip_failure_modes [where e = "fake_env cli_conf (''{}'', None)"
      and docker = "''/usr/bin/docker''" and out = "''{}''"
      and result = "[]" and c = app_created and tr = "[]"]
    ip_failure_modes [where e = "fake_env cli_conf (inspect_empty_ip, None)"
      and docker = "''/usr/bin/docker''" and out = inspect_empty_ip
      and result = "[(''NetworkSettings'', JObject [(''IpAddress'', JString [])])]"
      and ns = "[(''IpAddress'', JString [])]" and c = app_created and tr = "[]"]
  by (simp add: fake_simps decode_simps decode_empty_object)

text \<open>
  C4 as the specification states it fails in its first failure mode: with the sample
  configuration, which has no \<^verbatim>\<open>docker:binary\<close>, the error \<^verbatim>\<open>ip\<close> returns is the very
  error value the configuration lookup returned.
\<close>

theorem ip_passes_config_error_counterexample:
  "GetString (fake_env sample_conf (inspect_with_ip, None)) ''docker:binary'' =
     Inl (ConfigError ''key docker:binary not found'') \<and>
   fst (ip (fake_env sample_conf (inspect_with_ip, None)) app_created []) =
     Returns ([], Some (ConfigError ''key docker:binary not found''))"
  by (simp add: ip_def fake_simps)

subsection \<open>The unchecked type assertions of ip\<close>

text \<open>
  C5. With the binary configured, an inspect run that succeeds and an output that decodes
  to a map whose \<^verbatim>\<open>NetworkSettings\<close> is present and not null, \<^verbatim>\<open>ip\<close> panics, and so
  returns neither an address nor an error, in each of these cases: \<^verbatim>\<open>NetworkSettings\<close> is
  not an object; it is an object without \<^verbatim>\<open>IpAddress\<close>; it is an object whose
  \<^verbatim>\<open>IpAddress\<close> is not a string.
\<close>

theorem ip_panics_on_unexpected_shape:
  assumes "GetString e ''docker:binary'' = Inr docker"
    and "Execute e docker [''inspect'', container_id c] = (out, None)"
    and "Unmarshal e out = Inr result"
    and "map_of result ''NetworkSettings'' = Some v"
    and "v \<noteq> JNull"
  shows "(\<not> is_object v \<longrightarrow> fst (ip e c tr) = Panics) \<and>
         (v = JObject ns \<and> map_of ns ''IpAddress'' = None \<longrightarrow> fst (ip e c tr) = Panics) \<and>
         (v = JObject ns \<and> map_of ns ''IpAddress'' = Some a \<and> \<not> is_string a \<longrightarrow>
            fst (ip e c tr) = Panics)"
proof -
  note r = ip_decoded [OF assms(1-3), of tr]
  have "\<not> is_object v \<Longrightarrow> fst (ip e c tr) = Panics"
    using r assms(4,5) by (cases v) simp_all
  moreover have "v = JObject ns \<Longrightarrow> map_of ns ''IpAddress'' = None \<Longrightarrow> fst (ip e c tr) = Panics"
    using r assms(4) by simp
  moreover have "v = JObject ns \<Longrightarrow> map_of ns ''IpAddress'' = Some a \<Longrightarrow> \<not> is_string a \<Longrightarrow>
      fst (ip e c tr) = Panics"
    using r assms(4) by (cases a) simp_all
  ultimately show ?thesis by blast
qed

theorem ip_panics_on_unexpected_shape_witness:
  "fst (ip (fake_env cli_conf (inspect_settings_number, None)) app_created []) = Panics \<and>
   fst (ip (fake_env cli_conf (inspect_no_ip, None)) app_created []) = Panics \<and>
   fst (ip (fake_env cli_conf (inspect_ip_number, None)) app_created []) = Panics"
  using
    ip_panics_on_unexpected_shape [where e = "fake_env cli_conf (inspect_settings_number, None)"
      and docker = "''/usr/bin/docker''" and c = app_created and out = inspect_settings_number
      and result = "[(''NetworkSettings'', JNumber ''5'')]" and v = "JNumber ''5''" and tr = "[]"]
    ip_panics_on_unexpected_shape [where e = "fake_env cli_conf (inspect_no_ip, None)"
      and docker = "''/usr/bin/docker''" and c = app_created and out = inspect_no_ip
      and result = "[(''NetworkSettings'', JObject [])]" and v = "JObject []" and ns = "[]"
      and tr = "[]"]
    ip_panics_on_unexpected_shape [where e = "fake_env cli_conf (inspect_ip_number, None)"
      and docker = "''/usr/bin/docker''" and c = app_created and out = inspect_ip_number
      and result = "[(''NetworkSettings'', JObject [(''IpAddress'', JNumber ''7'')])]"
      and v = "JObject [(''IpAddress'', JNumber ''7'')]" and ns = "[(''IpAddress'', JNumber ''7'')]"
      and a = "JNumber ''7''" and tr = "[]"]
  by (simp add: fake_simps decode_simps)

subsection \<open>Auxiliary facts about traces\<close>

lemma invocations_append: "invocations (tr @ tr') = invocations tr @ invocations tr'"
  by (simp add: invocations_def)

lemma logged_after_run_append:
  "logged_after_run tr \<Longrightarrow> logged_after_run (tr @ tr') = logged_after_run tr'"
  by (induction tr rule: logged_after_run.induct) simp_all

lemma repositoryName_result:
  "fst (repositoryName e img tr) =
     (case GetString e ''docker:repository-namespace'' of
        Inl err \<Rightarrow> []
      | Inr registryUser \<Rightarrow> registryUser @ ''/'' @ image_name img)"
  by (simp add: repositoryName_def split: sum.split)

lemma repositoryName_invocations:
  "invocations (snd (snd (repositoryName e img tr))) = invocations tr"
  by (simp add: repositoryName_def invocations_def split: sum.split)

lemma commit_configured:
  assumes "GetString e ''docker:binary'' = Inr docker"
  shows "invocations (snd (snd (commit e img cId tr))) =
           invocations tr @ [Exec docker [''commit'', cId, fst (repositoryName e img tr)]]"
    and "fst (commit e img cId tr) =
           snd (Execute e docker [''commit'', cId, fst (repositoryName e img tr)])"
  using assms
  by (simp_all add: commit_def repositoryName_def runCmd_def Let_def invocations_def
      split: sum.split prod.split option.split)

subsection \<open>Missing configuration keys\<close>

text \<open>
  C3 (as amended). When \<^verbatim>\<open>docker:binary\<close> is missing, \<^verbatim>\<open>create\<close>, \<^verbatim>\<open>stop\<close>,
  \<^verbatim>\<open>remove\<close>, \<^verbatim>\<open>ip\<close> and \<^verbatim>\<open>commit\<close> return the error of the configuration lookup and run
  no external command. The same holds for \<^verbatim>\<open>create\<close> when the first key missing is
  \<^verbatim>\<open>docker:image\<close>, \<^verbatim>\<open>docker:cmd:bin\<close> or \<^verbatim>\<open>docker:cmd:args\<close>. When
  \<^verbatim>\<open>docker:repository-namespace\<close> is missing, \<^verbatim>\<open>repositoryName\<close> signals no error: it
  returns the empty string and runs no external command; and \<^verbatim>\<open>commit\<close>, with the binary
  configured, does not fail on that account: it runs the commit command with the empty
  repository name and returns what the run returns.
\<close>

theorem missing_key_no_invocation:
  "(GetString e ''docker:binary'' = Inl err \<longrightarrow>
      fst (create e c tr) = ([], Some err) \<and>
      invocations (snd (snd (create e c tr))) = invocations tr \<and>
      fst (stop e c tr) = Some err \<and>
      invocations (snd (snd (stop e c tr))) = invocations tr \<and>
      fst (remove e c tr) = Some err \<and>
      invocations (snd (snd (remove e c tr))) = invocations tr \<and>
      fst (ip e c tr) = Returns ([], Some err) \<and>
      invocations (snd (snd (ip e c tr))) = invocations tr \<and>
      fst (commit e img cId tr) = Some err \<and>
      invocations (snd (snd (commit e img cId tr))) = invocations tr) \<and>
   (GetString e ''docker:binary'' = Inr docker \<and>
    GetString e ''docker:image'' = Inl err \<longrightarrow>
      fst (create e c tr) = ([], Some err) \<and>
      invocations (snd (snd (create e c tr))) = invocations tr) \<and>
   (GetString e ''docker:binary'' = Inr docker \<and>
    GetString e ''docker:image'' = Inr template \<and>
    GetString e ''docker:cmd:bin'' = Inl err \<longrightarrow>
      fst (create e c tr) = ([], Some err) \<and>
      invocations (snd (snd (create e c tr))) = invocations tr) \<and>
   (GetString e ''docker:binary'' = Inr docker \<and>
    GetString e ''docker:image'' = Inr template \<and>
    GetString e ''docker:cmd:bin'' = Inr cmd \<and>
    GetList e ''docker:cmd:args'' = Inl err \<longrightarrow>
      fst (create e c tr) = ([], Some err) \<and>
      invocations (snd (snd (create e c tr))) = invocations tr) \<and>
   (GetString e ''docker:repository-namespace'' = Inl err \<longrightarrow>
      fst (repositoryName e img tr) = [] \<and>
      invocations (snd (snd (repositoryName e img tr))) = invocations tr) \<and>
   (GetString e ''docker:binary'' = Inr docker \<and>
    GetString e ''docker:repository-namespace'' = Inl err \<longrightarrow>
      invocations (snd (snd (commit e img cId tr))) =
        invocations tr @ [Exec docker [''commit'', cId, []]] \<and>
      fst (commit e img cId tr) = snd (Execute e docker [''commit'', cId, []]))"
proof (intro conjI impI)
  assume h: "GetString e ''docker:binary'' = Inl err"
  show "fst (create e c tr) = ([], Some err)" using h by (simp add: create_def)
  show "invocations (snd (snd (create e c tr))) = invocations tr" using h by (simp add: create_def)
  show "fst (stop e c tr) = Some err" using h by (simp add: stop_def)
  show "invocations (snd (snd (stop e c tr))) = invocations tr" using h by (simp add: stop_def)
  show "fst (remove e c tr) = Some err" using h by (simp add: remove_def)
  show "invocations (snd (snd (remove e c tr))) = invocations tr" using h by (simp add: remove_def)
  show "fst (ip e c tr) = Returns ([], Some err)" using h by (simp add: ip_unconfigured)
  show "invocations (snd (snd (ip e c tr))) = invocations tr" using h by (simp add: ip_unconfigured)
  show "fst (commit e img cId tr) = Some err" using h by (simp add: commit_def)
  show "invocations (snd (snd (commit e img cId tr))) = invocations tr"
    using h by (simp add: commit_def invocations_def)
next
  assume h: "GetString e ''docker:binary'' = Inr docker \<and> GetString e ''docker:image'' = Inl err"
  show "fst (create e c tr) = ([], Some err)" using h by (simp add: create_def)
  show "invocations (snd (snd (create e c tr))) = invocations tr" using h by (simp add: create_def)
next
  assume h: "GetString e ''docker:binary'' = Inr docker \<and>
    GetString e ''docker:image'' = Inr template \<and> GetString e ''docker:cmd:bin'' = Inl err"
  show "fst (create e c tr) = ([], Some err)" using h by (simp add: create_def)
  show "invocations (snd (snd (create e c tr))) = invocations tr" using h by (simp add: create_def)
next
  assume h: "GetString e ''docker:binary'' = Inr docker \<and>
    GetString e ''docker:image'' = Inr template \<and> GetString e ''docker:cmd:bin'' = Inr cmd \<and>
    GetList e ''docker:cmd:args'' = Inl err"
  show "fst (create e c tr) = ([], Some err)" using h by (simp add: create_def)
  show "invocations (snd (snd (create e c tr))) = invocations tr" using h by (simp add: create_def)
next
  assume h: "GetString e ''docker:repository-namespace'' = Inl err"
  show "fst (repositoryName e img tr) = []" using h by (simp add: repositoryName_result)
  show "invocations (snd (snd (repositoryName e img tr))) = invocations tr"
    by (rule repositoryName_invocations)
next
  assume h: "GetString e ''docker:binary'' = Inr docker \<and>
    GetString e ''docker:repository-namespace'' = Inl err"
  then have b: "GetString e ''docker:binary'' = Inr docker" ..
  have r: "fst (repositoryName e img tr) = []" using h by (simp add: repositoryName_result)
  show "invocations (snd (snd (commit e img cId tr))) =
      invocations tr @ [Exec docker [''commit'', cId, []]]"
    using commit_configured(1) [OF b, of img cId tr] r by simp
  show "fst (commit e img cId tr) = snd (Execute e docker [''commit'', cId, []])"
    using commit_configured(2) [OF b, of img cId tr] r by simp
qed
theorem missing_key_no_invocation_witness:
  "(fst (create (fake_env sample_conf (''abc123'', None)) app []) =
      ([], Some (ConfigError ''key docker:binary not found'')) \<and>
    invocations (snd (snd (create (fake_env sample_conf (''abc123'', None)) app []))) = [] \<and>
    fst (stop (fake_env sample_conf (''abc123'', None)) app []) =
      Some (ConfigError ''key docker:binary not found'') \<and>
    invocations (snd (snd (stop (fake_env sample_conf (''abc123'', None)) app []))) = [] \<and>
    fst (remove (fake_env sample_conf (''abc123'', None)) app []) =
      Some (ConfigError ''key docker:binary not found'') \<and>
    invocations (snd (snd (remove (fake_env sample_conf (''abc123'', None)) app []))) = [] \<and>
    fst (ip (fake_env sample_conf (''abc123'', None)) app []) =
      Returns ([], Some (ConfigError ''key docker:binary not found'')) \<and>
    invocations (snd (snd (ip (fake_env sample_conf (''abc123'', None)) app []))) = [] \<and>
    fst (commit (fake_env sample_conf (''abc123'', None)) base ''abc123'' []) =
      Some (ConfigError ''key docker:binary not found'') \<and>
    invocations (snd (snd (commit (fake_env sample_conf (''abc123'', None)) base ''abc123'' []))) = []) \<and>
   (fst (create (fake_env (take 1 cli_conf) (''abc123'', None)) app []) =
      ([], Some (ConfigError ''key docker:image not found'')) \<and>
    invocations (snd (snd (create (fake_env (take 1 cli_conf) (''abc123'', None)) app []))) = []) \<and>
   (fst (create (fake_env (take 2 cli_conf) (''abc123'', None)) app []) =
      ([], Some (ConfigError ''key docker:cmd:bin not found'')) \<and>
    invocations (snd (snd (create (fake_env (take 2 cli_conf) (''abc123'', None)) app []))) = []) \<and>
   (fst (create (fake_env (take 3 cli_conf) (''abc123'', None)) app []) =
      ([], Some (ConfigError ''key docker:cmd:args not found'')) \<and>
    invocations (snd (snd (create (fake_env (take 3 cli_conf) (''abc123'', None)) app []))) = []) \<and>
   (fst (repositoryName (fake_env cli_conf (''abc123'', None)) base []) = [] \<and>
    invocations (snd (snd (repositoryName (fake_env cli_conf (''abc123'', None)) base []))) = []) \<and>
   (invocations (snd (snd (commit (fake_env cli_conf (''abc123'', None)) base ''abc123'' []))) =
      [Exec ''/usr/bin/docker'' [''commit'', ''abc123'', []]] \<and>
    fst (commit (fake_env cli_conf (''abc123'', None)) base ''abc123'' []) = None)"
proof (intro conjI)
  let ?r = "(''abc123'', None :: error option)"
  note binary = missing_key_no_invocation [where e = "fake_env sample_conf ?r"
      and err = "ConfigError ''key docker:binary not found''" and c = app and img = base
      and cId = "''abc123''" and tr = "[]"]
  note image = missing_key_no_invocation [where e = "fake_env (take 1 cli_conf) ?r"
      and docker = "''/usr/bin/docker''"
      and err = "ConfigError ''key docker:image not found''" and c = app and tr = "[]"]
  note cmd = missing_key_no_invocation [where e = "fake_env (take 2 cli_conf) ?r"
      and docker = "''/usr/bin/docker''" and template = "''base''"
      and err = "ConfigError ''key docker:cmd:bin not found''" and c = app and tr = "[]"]
  note args = missing_key_no_invocation [where e = "fake_env (take 3 cli_conf) ?r"
      and docker = "''/usr/bin/docker''" and template = "''base''" and cmd = "''/var/lib/tsuru/start''"
      and err = "ConfigError ''key docker:cmd:args not found''" and c = app and tr = "[]"]
  note namespace = missing_key_no_invocation [where e = "fake_env cli_conf ?r"
      and docker = "''/usr/bin/docker''"
      and err = "ConfigError ''key docker:repository-namespace not found''" and img = base
      and cId = "''abc123''" and tr = "[]"]
  have nil: "invocations [] = []" by (simp add: invocations_def)
  show "fst (create (fake_env sample_conf ?r) app []) =
      ([], Some (ConfigError ''key docker:binary not found''))"
    using binary by (simp add: fake_simps)
  show "invocations (snd (snd (create (fake_env sample_conf ?r) app []))) = []"
    using binary nil by (simp add: fake_simps)
  show "fst (stop (fake_env sample_conf ?r) app []) =
      Some (ConfigError ''key docker:binary not found'')"
    using binary by (simp add: fake_simps)
  show "invocations (snd (snd (stop (fake_env sample_conf ?r) app []))) = []"
    using binary nil by (simp add: fake_simps)
  show "fst (remove (fake_env sample_conf ?r) app []) =
      Some (ConfigError ''key docker:binary not found'')"
    using binary by (simp add: fake_simps)
  show "invocations (snd (snd (remove (fake_env sample_conf ?r) app []))) = []"
    using binary nil by (simp add: fake_simps)
  show "fst (ip (fake_env sample_conf ?r) app []) =
      Returns ([], Some (ConfigError ''key docker:binary not found''))"
    using binary by (simp add: fake_simps)
  show "invocations (snd (snd (ip (fake_env sample_conf ?r) app []))) = []"
    using binary nil by (simp add: fake_simps)
  show "fst (commit (fake_env sample_conf ?r) base ''abc123'' []) =
      Some (ConfigError ''key docker:binary not found'')"
    using binary by (simp add: fake_simps)
  show "invocations (snd (snd (commit (fake_env sample_conf ?r) base ''abc123'' []))) = []"
    using binary nil by (simp add: fake_simps)
  show "fst (create (fake_env (take 1 cli_conf) ?r) app []) =
      ([], Some (ConfigError ''key docker:image not found''))"
    using image by (simp add: fake_simps)
  show "invocations (snd (snd (create (fake_env (take 1 cli_conf) ?r) app []))) = []"
    using image nil by (simp add: fake_simps)
  show "fst (create (fake_env (take 2 cli_conf) ?r) app []) =
      ([], Some (ConfigError ''key docker:cmd:bin not found''))"
    using cmd by (simp add: fake_simps)
  show "invocations (snd (snd (create (fake_env (take 2 cli_conf) ?r) app []))) = []"
    using cmd nil by (simp add: fake_simps)
  show "fst (create (fake_env (take 3 cli_conf) ?r) app []) =
      ([], Some (ConfigError ''key docker:cmd:args not found''))"
    using args by (simp add: fake_simps)
  show "invocations (snd (snd (create (fake_env (take 3 cli_conf) ?r) app []))) = []"
    using args nil by (simp add: fake_simps)
  show "fst (repositoryName (fake_env cli_conf ?r) base []) = []"
    using namespace by (simp add: fake_simps)
  show "invocations (snd (snd (repositoryName (fake_env cli_conf ?r) base []))) = []"
    using namespace nil by (simp add: fake_simps)
  show "invocations (snd (snd (commit (fake_env cli_conf ?r) base ''abc123'' []))) =
      [Exec ''/usr/bin/docker'' [''commit'', ''abc123'', []]]"
    using namespace nil by (simp add: fake_simps)
  show "fst (commit (fake_env cli_conf ?r) base ''abc123'' []) = None"
    using namespace by (simp add: fake_simps)
qed

text \<open>
  C3 as the specification states it fails for the key \<^verbatim>\<open>docker:repository-namespace\<close>:
  with the binary configured and no namespace, \<^verbatim>\<open>repositoryName\<close> returns the empty string
  without an error, and \<^verbatim>\<open>commit\<close>, which reads the key through it, runs the external
  command once and returns no error.
\<close>

theorem commit_without_namespace_counterexample:
  "GetString (fake_env cli_conf (''abc123'', None)) ''docker:repository-namespace'' =
     Inl (ConfigError ''key docker:repository-namespace not found'') \<and>
   fst (repositoryName (fake_env cli_conf (''abc123'', None)) base []) = [] \<and>
   fst (commit (fake_env cli_conf (''abc123'', None)) base ''abc123'' []) = None \<and>
   invocations (snd (snd (commit (fake_env cli_conf (''abc123'', None)) base ''abc123'' []))) =
     [Exec ''/usr/bin/docker'' [''commit'', ''abc123'', []]]"
  by (simp add: commit_def repositoryName_def runCmd_def Let_def invocations_def fake_simps)

subsection \<open>The container's fields\<close>

text \<open>
  C6 (as amended). \<^verbatim>\<open>create\<close> does not store the identifier in the container: when it
  succeeds it returns the runtime-assigned identifier to its caller, and the container,
  its id field included, is as it was before the call. No other operation on a container
  (\<^verbatim>\<open>start\<close>, \<^verbatim>\<open>stop\<close>, \<^verbatim>\<open>remove\<close>, \<^verbatim>\<open>ip\<close>) modifies it either.
\<close>

theorem operations_keep_container:
  "fst (snd (create e c tr)) = c \<and>
   fst (snd (start c tr)) = c \<and>
   fst (snd (stop e c tr)) = c \<and>
   fst (snd (remove e c tr)) = c \<and>
   fst (snd (ip e c tr)) = c \<and>
   (GetString e ''docker:binary'' = Inr docker \<and>
    GetString e ''docker:image'' = Inr template \<and>
    GetString e ''docker:cmd:bin'' = Inr cmd \<and>
    GetList e ''docker:cmd:args'' = Inr args \<and>
    Execute e docker ([''run'', ''-d'', template, cmd] @ args) = (out, None) \<longrightarrow>
      fst (create e c tr) = (filter (\<lambda>x. x \<noteq> CHR 0x0A) out, None))"
proof (intro conjI impI)
  show "fst (snd (create e c tr)) = c"
    by (simp add: create_def runCmd_def Let_def split: sum.split prod.split)
  show "fst (snd (start c tr)) = c"
    by (simp add: start_def)
  show "fst (snd (stop e c tr)) = c"
    by (simp add: stop_def runCmd_def Let_def split: sum.split prod.split)
  show "fst (snd (remove e c tr)) = c"
    by (simp add: remove_def runCmd_def Let_def split: sum.split prod.split)
  show "fst (snd (ip e c tr)) = c"
    by (rule ip_keeps_container)
next
  assume "GetString e ''docker:binary'' = Inr docker \<and>
    GetString e ''docker:image'' = Inr template \<and>
    GetString e ''docker:cmd:bin'' = Inr cmd \<and>
    GetList e ''docker:cmd:args'' = Inr args \<and>
    Execute e docker ([''run'', ''-d'', template, cmd] @ args) = (out, None)"
  then show "fst (create e c tr) = (filter (\<lambda>x. x \<noteq> CHR 0x0A) out, None)"
    using create_configured [of e docker template cmd args out None c tr] by simp
qed

theorem operations_keep_container_witness:
  "fst (snd (create (fake_env cli_conf (''abc123'' @ newline, None)) app [])) = app \<and>
   fst (snd (start app [])) = app \<and>
   fst (snd (stop (fake_env cli_conf (''abc123'' @ newline, None)) app [])) = app \<and>
   fst (snd (remove (fake_env cli_conf (''abc123'' @ newline, None)) app [])) = app \<and>
   fst (snd (ip (fake_env cli_conf (''abc123'' @ newline, None)) app [])) = app \<and>
   fst (create (fake_env cli_conf (''abc123'' @ newline, None)) app []) = (''abc123'', None)"
  using operations_keep_container [where e = "fake_env cli_conf (''abc123'' @ newline, None)"
      and docker = "''/usr/bin/docker''" and template = "''base''"
      and cmd = "''/var/lib/tsuru/start''" and args = "[''-p'', ''8888'']"
      and out = "''abc123'' @ newline" and c = app and tr = "[]"]
  by (simp add: fake_env_def conf_GetString_def conf_GetList_def cli_conf_def)

text \<open>
  C6 as the specification states it fails: after a \<^verbatim>\<open>create\<close> that succeeds and returns
  the identifier \<^verbatim>\<open>abc123\<close>, the id field of the container is still empty.
\<close>

theorem create_populates_id_counterexample:
  "fst (create (fake_env cli_conf (''abc123'' @ newline, None)) app []) = (''abc123'', None) \<and>
   container_id (fst (snd (create (fake_env cli_conf (''abc123'' @ newline, None)) app []))) = []"
  by (simp add: create_def runCmd_def Let_def fake_simps strings_Replace_remove_char)

subsection \<open>The repository name\<close>

text \<open>
  C7. \<^verbatim>\<open>repositoryName\<close> reads the namespace from the configuration at each call: with a
  namespace configured it returns the namespace, a slash and the image's name (so
  \<^verbatim>\<open>tsuru/base\<close> for the namespace \<^verbatim>\<open>tsuru\<close> and the image \<^verbatim>\<open>base\<close>); with none it
  returns the empty string. Its only result is the string: it has no error to signal.
\<close>

theorem repositoryName_from_configuration:
  "(GetString e ''docker:repository-namespace'' = Inr namespace \<longrightarrow>
      fst (repositoryName e img tr) = namespace @ ''/'' @ image_name img) \<and>
   (GetString e ''docker:repository-namespace'' = Inl err \<longrightarrow>
      fst (repositoryName e img tr) = [])"
  by (simp add: repositoryName_result)

theorem repositoryName_from_configuration_witness:
  "fst (repositoryName (fake_env sample_conf (''abc123'', None)) base []) = ''tsuru/base'' \<and>
   fst (repositoryName (fake_env cli_conf (''abc123'', None)) base []) = []"
  using
    repositoryName_from_configuration [where e = "fake_env sample_conf (''abc123'', None)"
      and namespace = "''tsuru''" and img = base and tr = "[]"]
    repositoryName_from_configuration [where e = "fake_env cli_conf (''abc123'', None)"
      and err = "ConfigError ''key docker:repository-namespace not found''" and img = base
      and tr = "[]"]
  by (simp add: fake_simps)

subsection \<open>The commit command\<close>

lemma commit_trace:
  assumes "GetString e ''docker:binary'' = Inr docker"
  shows "snd (snd (commit e img cId tr)) =
           snd (snd (repositoryName e img
             (tr @ [Log (''attempting to commit image from container '' @ cId)]))) @
           [Exec docker [''commit'', cId, fst (repositoryName e img tr)],
            Log (''running the cmd: '' @ docker @ '' with the args: '' @
                 fmt_strings [''commit'', cId, fst (repositoryName e img tr)])] @
           (case snd (Execute e docker [''commit'', cId, fst (repositoryName e img tr)]) of
              None \<Rightarrow> []
            | Some err \<Rightarrow> [Log (''Could not commit docker image: '' @ Error err)])"
  using assms
  by (simp add: commit_def repositoryName_def runCmd_def Let_def
      split: sum.split prod.split option.split)

text \<open>
  C8 (as amended). With the binary configured, \<^verbatim>\<open>commit\<close> runs one external command: the
  binary with the subcommand \<^verbatim>\<open>commit\<close> and exactly two arguments after it, the container
  id and then the repository name computed by \<^verbatim>\<open>repositoryName\<close>. The error it returns is
  the error of that run, unchanged, and no error when the run succeeds. Its trace is: the
  line "attempting to commit image from container" with the id, what \<^verbatim>\<open>repositoryName\<close>
  logs, the execution, the log line of \<^verbatim>\<open>runCmd\<close> and, when the run fails and only then,
  the line "Could not commit docker image: " with the text of the error.
\<close>

theorem commit_runs_commit_command:
  assumes "GetString e ''docker:binary'' = Inr docker"
  shows "invocations (snd (snd (commit e img cId tr))) =
           invocations tr @ [Exec docker [''commit'', cId, fst (repositoryName e img tr)]] \<and>
         fst (commit e img cId tr) =
           snd (Execute e docker [''commit'', cId, fst (repositoryName e img tr)]) \<and>
         snd (snd (commit e img cId tr)) =
           snd (snd (repositoryName e img
             (tr @ [Log (''attempting to commit image from container '' @ cId)]))) @
           [Exec docker [''commit'', cId, fst (repositoryName e img tr)],
            Log (''running the cmd: '' @ docker @ '' with the args: '' @
                 fmt_strings [''commit'', cId, fst (repositoryName e img tr)])] @
           (case snd (Execute e docker [''commit'', cId, fst (repositoryName e img tr)]) of
              None \<Rightarrow> []
            | Some err \<Rightarrow> [Log (''Could not commit docker image: '' @ Error err)])"
  using commit_configured [OF assms] commit_trace [OF assms] by simp

theorem commit_runs_commit_command_witness:
  "invocations (snd (snd (commit (fake_env full_conf (''abc123'', None)) base ''abc123'' []))) =
     [Exec ''/usr/bin/docker'' [''commit'', ''abc123'', ''tsuru/base'']] \<and>
   fst (commit (fake_env full_conf (''abc123'', None)) base ''abc123'' []) = None \<and>
   snd (snd (commit (fake_env full_conf (''abc123'', None)) base ''abc123'' [])) =
     [Log ''attempting to commit image from container abc123'',
      Exec ''/usr/bin/docker'' [''commit'', ''abc123'', ''tsuru/base''],
      Log ''running the cmd: /usr/bin/docker with the args: [commit abc123 tsuru/base]''] \<and>
   fst (commit (fake_env full_conf (''No such container'', Some (ExecuteError ''exit status 1'')))
     base ''abc123'' []) = Some (ExecuteError ''exit status 1'') \<and>
   snd (snd (commit (fake_env full_conf (''No such container'', Some (ExecuteError ''exit status 1'')))
     base ''abc123'' [])) =
     [Log ''attempting to commit image from container abc123'',
      Exec ''/usr/bin/docker'' [''commit'', ''abc123'', ''tsuru/base''],
      Log ''running the cmd: /usr/bin/docker with the args: [commit abc123 tsuru/base]'',
      Log ''Could not commit docker image: exit status 1'']"
  using
    commit_runs_commit_command [where e = "fake_env full_conf (''abc123'', None)"
      and docker = "''/usr/bin/docker''" and img = base and cId = "''abc123''" and tr = "[]"]
    commit_runs_commit_command [where e = "fake_env full_conf
        (''No such container'', Some (ExecuteError ''exit status 1''))"
      and docker = "''/usr/bin/docker''" and img = base and cId = "''abc123''" and tr = "[]"]
  by (simp add: fake_simps repositoryName_def invocations_def fmt_strings_def)

text \<open>
  C8 as the specification states it fails: when the run fails, the error \<^verbatim>\<open>commit\<close>
  returns is the very error value of the executor, not an error of its own.
\<close>

theorem commit_passes_error_counterexample:
  "snd (Execute (fake_env full_conf (''No such container'', Some (ExecuteError ''exit status 1'')))
     ''/usr/bin/docker'' [''commit'', ''abc123'', ''tsuru/base'']) =
     Some (ExecuteError ''exit status 1'') \<and>
   fst (commit (fake_env full_conf (''No such container'', Some (ExecuteError ''exit status 1'')))
     base ''abc123'' []) = Some (ExecuteError ''exit status 1'')"
  by (simp add: commit_def repositoryName_def runCmd_def Let_def fake_simps)

subsection \<open>The order of execution and logging\<close>

text \<open>
  C9 (as amended). \<^verbatim>\<open>runCmd\<close> first runs the external process and then, before it
  returns, logs the command and its arguments: it extends the trace with the execution
  followed by its log line. Every external invocation of the file is made by \<^verbatim>\<open>runCmd\<close>,
  so in the trace of every operation each execution is immediately followed by its log
  line.
\<close>

theorem runCmd_logs_after_execution:
  "snd (runCmd e cmd args tr) =
     tr @ [Exec cmd args,
           Log (''running the cmd: '' @ cmd @ '' with the args: '' @ fmt_strings args)] \<and>
   (logged_after_run tr \<longrightarrow>
      logged_after_run (snd (snd (create e c tr))) \<and>
      logged_after_run (snd (snd (stop e c tr))) \<and>
      logged_after_run (snd (snd (remove e c tr))) \<and>
      logged_after_run (snd (snd (ip e c tr))) \<and>
      logged_after_run (snd (snd (commit e img cId tr))))"
proof (intro conjI impI)
  show "snd (runCmd e cmd args tr) =
     tr @ [Exec cmd args,
           Log (''running the cmd: '' @ cmd @ '' with the args: '' @ fmt_strings args)]"
    by (simp add: runCmd_def split: prod.split)
next
  assume h: "logged_after_run tr"
  show "logged_after_run (snd (snd (create e c tr)))"
    using h
    by (simp add: create_def runCmd_def Let_def logged_after_run_append
        split: sum.split prod.split)
  show "logged_after_run (snd (snd (stop e c tr)))"
    using h
    by (simp add: stop_def runCmd_def Let_def logged_after_run_append
        split: sum.split prod.split)
  show "logged_after_run (snd (snd (remove e c tr)))"
    using h
    by (simp add: remove_def runCmd_def Let_def logged_after_run_append
        split: sum.split prod.split)
  show "logged_after_run (snd (snd (ip e c tr)))"
    using h
    by (simp add: ip_def runCmd_def Let_def logged_after_run_append
        split: sum.split prod.split option.split)
  show "logged_after_run (snd (snd (commit e img cId tr)))"
    using h
    by (simp add: commit_def repositoryName_def runCmd_def Let_def logged_after_run_append
        split: sum.split prod.split option.split)
qed

theorem runCmd_logs_after_execution_witness:
  "snd (runCmd (fake_env cli_conf (''abc123'', None)) ''/usr/bin/docker'' [''stop'', ''abc123'']
     [Log ''trying to stop instance abc123'']) =
     [Log ''trying to stop instance abc123'',
      Exec ''/usr/bin/docker'' [''stop'', ''abc123''],
      Log ''running the cmd: /usr/bin/docker with the args: [stop abc123]''] \<and>
   logged_after_run (snd (snd (create (fake_env cli_conf (''abc123'', None)) app_created
     [Log ''trying to stop instance abc123'']))) \<and>
   logged_after_run (snd (snd (stop (fake_env cli_conf (''abc123'', None)) app_created
     [Log ''trying to stop instance abc123'']))) \<and>
   logged_after_run (snd (snd (remove (fake_env cli_conf (''abc123'', None)) app_created
     [Log ''trying to stop instance abc123'']))) \<and>
   logged_after_run (snd (snd (ip (fake_env cli_conf (''abc123'', None)) app_created
     [Log ''trying to stop instance abc123'']))) \<and>
   logged_after_run (snd (snd (commit (fake_env cli_conf (''abc123'', None)) base ''abc123''
     [Log ''trying to stop instance abc123''])))"
  using runCmd_logs_after_execution [where e = "fake_env cli_conf (''abc123'', None)"
      and cmd = "''/usr/bin/docker''" and args = "[''stop'', ''abc123'']"
      and tr = "[Log ''trying to stop instance abc123'']" and c = app_created and img = base
      and cId = "''abc123''"]
  by (simp add: fmt_strings_def)

text \<open>
  C9 as the specification states it fails: in the trace of \<^verbatim>\<open>stop\<close> the log line of the
  command does not precede the execution of the command; the execution precedes it.
\<close>

theorem log_before_execution_counterexample:
  "\<not> precedes
       (Log ''running the cmd: /usr/bin/docker with the args: [stop abc123]'')
       (Exec ''/usr/bin/docker'' [''stop'', ''abc123''])
       (snd (snd (stop (fake_env cli_conf (''abc123'', None)) app_created []))) \<and>
   precedes
       (Exec ''/usr/bin/docker'' [''stop'', ''abc123''])
       (Log ''running the cmd: /usr/bin/docker with the args: [stop abc123]'')
       (snd (snd (stop (fake_env cli_conf (''abc123'', None)) app_created [])))"
  by (simp add: precedes_def stop_def runCmd_def Let_def fmt_strings_def fake_simps)

subsection \<open>The result of create when the run fails\<close>

text \<open>
  C10. When the four configuration keys are read and the run fails with an error,
  \<^verbatim>\<open>create\<close> returns that error together with the captured output, its newlines removed,
  in the place of the identifier; that string is empty only when the output has no
  character other than newlines, so a failing run that printed a diagnostic gives its
  caller a non-empty string next to the error.
\<close>

theorem create_returns_output_with_error:
  assumes "GetString e ''docker:binary'' = Inr docker"
    and "GetString e ''docker:image'' = Inr template"
    and "GetString e ''docker:cmd:bin'' = Inr cmd"
    and "GetList e ''docker:cmd:args'' = Inr args"
    and "Execute e docker ([''run'', ''-d'', template, cmd] @ args) = (out, Some err)"
  shows "fst (create e c tr) = (strings_Replace out newline [] (- 1), Some err) \<and>
         (fst (fst (create e c tr)) = [] \<longleftrightarrow> set out \<subseteq> {CHR 0x0A})"
proof -
  have r: "fst (create e c tr) = (filter (\<lambda>x. x \<noteq> CHR 0x0A) out, Some err)"
    using create_configured [OF assms] by simp
  have "(filter (\<lambda>x. x \<noteq> CHR 0x0A) out = []) = (set out \<subseteq> {CHR 0x0A})"
    by (auto simp: filter_empty_conv)
  with r show ?thesis by (simp add: strings_Replace_remove_char)
qed

theorem create_returns_output_with_error_witness:
  "fst (create (fake_env cli_conf (''No such image: base'' @ newline,
       Some (ExecuteError ''exit status 1''))) app []) =
     (''No such image: base'', Some (ExecuteError ''exit status 1''))"
  using create_returns_output_with_error [where e = "fake_env cli_conf
        (''No such image: base'' @ newline, Some (ExecuteError ''exit status 1''))"
      and docker = "''/usr/bin/docker''" and template = "''base''"
      and cmd = "''/var/lib/tsuru/start''" and args = "[''-p'', ''8888'']"
      and out = "''No such image: base'' @ newline" and err = "ExecuteError ''exit status 1''"
      and c = app and tr = "[]"]
  by (simp add: fake_env_def conf_GetString_def conf_GetList_def cli_conf_def
      strings_Replace_remove_char)

end
